theory Spec2Isabelle
  imports Main "HOL-Library.Word"
begin

section \<open>JavaScript strings\<close>

text \<open>
  A JavaScript string is a sequence of UTF-16 code units. The regular expressions of
  \<^verbatim>\<open>script.js\<close> have no \<^verbatim>\<open>u\<close> flag, so they too work on code units.
\<close>

type_synonym cu = "16 word"
type_synonym ustring = "cu list"

definition ustr :: "string \<Rightarrow> ustring" where
  \<comment> \<open>an ASCII literal as a JavaScript string\<close>
  "ustr s = map (\<lambda>c. of_nat (of_char c)) s"

definition isWhiteSpace :: "cu \<Rightarrow> bool" where
  \<comment> \<open>the class \<^verbatim>\<open>\s\<close>, which is also what \<^verbatim>\<open>trim\<close> strips: WhiteSpace and LineTerminator\<close>
  "isWhiteSpace c \<longleftrightarrow>
     (0x09 \<le> c \<and> c \<le> 0x0D) \<or> c = 0x20 \<or> c = 0xA0 \<or> c = 0x1680 \<or>
     (0x2000 \<le> c \<and> c \<le> 0x200A) \<or> c = 0x2028 \<or> c = 0x2029 \<or> c = 0x202F \<or>
     c = 0x205F \<or> c = 0x3000 \<or> c = 0xFEFF"

definition isLineTerminator :: "cu \<Rightarrow> bool" where
  "isLineTerminator c \<longleftrightarrow> c = 0x0A \<or> c = 0x0D \<or> c = 0x2028 \<or> c = 0x2029"

definition isDot :: "cu \<Rightarrow> bool" where
  \<comment> \<open>the atom \<^verbatim>\<open>.\<close> without the \<^verbatim>\<open>s\<close> flag\<close>
  "isDot c \<longleftrightarrow> \<not> isLineTerminator c"

definition isUpperAZ :: "cu \<Rightarrow> bool" where
  "isUpperAZ c \<longleftrightarrow> 0x41 \<le> c \<and> c \<le> 0x5A"

definition isCombiningMark :: "cu \<Rightarrow> bool" where
  \<comment> \<open>the class \<^verbatim>\<open>[\u0300-\u036f]\<close>\<close>
  "isCombiningMark c \<longleftrightarrow> 0x0300 \<le> c \<and> c \<le> 0x036F"

definition notUpperOrSpace :: "cu \<Rightarrow> bool" where
  \<comment> \<open>the class \<^verbatim>\<open>[^A-Z\s]\<close>\<close>
  "notUpperOrSpace c \<longleftrightarrow> \<not> (isUpperAZ c \<or> isWhiteSpace c)"

subsection \<open>The regular expressions of the source\<close>

text \<open>
  Every pattern of the source is a sequence of atoms, each a character class taken once,
  under a greedy star or under a lazy star. \<open>rmatch\<close> is the backtracking matcher of
  ECMAScript on such a sequence, anchored at the start of its input: the greedy star tries
  one more character first, the lazy star tries the rest of the pattern first. It returns
  the input left after the match.
\<close>

datatype atom = One "cu \<Rightarrow> bool" | Star "cu \<Rightarrow> bool" | LazyStar "cu \<Rightarrow> bool"

fun rmatch :: "atom list \<Rightarrow> ustring \<Rightarrow> ustring option" where
  "rmatch [] s = Some s"
| "rmatch (One p # as) [] = None"
| "rmatch (One p # as) (x # xs) = (if p x then rmatch as xs else None)"
| "rmatch (Star p # as) [] = rmatch as []"
| "rmatch (Star p # as) (x # xs) =
     (if p x
      then (case rmatch (Star p # as) xs of Some r \<Rightarrow> Some r | None \<Rightarrow> rmatch as (x # xs))
      else rmatch as (x # xs))"
| "rmatch (LazyStar p # as) [] = rmatch as []"
| "rmatch (LazyStar p # as) (x # xs) =
     (case rmatch as (x # xs) of
        Some r \<Rightarrow> Some r
      | None \<Rightarrow> if p x then rmatch (LazyStar p # as) xs else None)"

text \<open>
  \<^verbatim>\<open>s.replace(/rx/g, rep)\<close>: the leftmost match is replaced and the scan goes on after
  it; after an empty match the scan copies one code unit and goes on.
\<close>

function replaceAll :: "atom list \<Rightarrow> ustring \<Rightarrow> ustring \<Rightarrow> ustring" where
  "replaceAll rx rep [] = (case rmatch rx [] of Some r \<Rightarrow> rep | None \<Rightarrow> [])"
| "replaceAll rx rep (x # xs) =
     (case rmatch rx (x # xs) of
        Some r \<Rightarrow>
          if length r < length (x # xs) then rep @ replaceAll rx rep r
          else rep @ x # replaceAll rx rep xs
      | None \<Rightarrow> x # replaceAll rx rep xs)"
  by pat_completeness auto
termination
  by (relation "measure (\<lambda>(rx, rep, s). length s)") auto

definition trim :: "ustring \<Rightarrow> ustring" where
  "trim s = rev (dropWhile isWhiteSpace (rev (dropWhile isWhiteSpace s)))"

primrec includes_str :: "ustring \<Rightarrow> ustring \<Rightarrow> bool" where
  \<comment> \<open>\<^verbatim>\<open>s.includes(t)\<close>: \<open>t\<close> occurs in \<open>s\<close> as a substring\<close>
  "includes_str [] t = (t = [])"
| "includes_str (x # xs) t = (take (length t) (x # xs) = t \<or> includes_str xs t)"

subsection \<open>The Unicode functions of the platform\<close>

text \<open>
  \<^verbatim>\<open>toUpperCase\<close> and \<^verbatim>\<open>normalize("NFD")\<close> are tables of the Unicode standard, not code of
  the repository. The game's functions take them as a parameter, so that what is proved of
  the game holds whatever these tables are.
\<close>

record platform =
  toUpperCase :: "ustring \<Rightarrow> ustring"
  normalizeNFD :: "ustring \<Rightarrow> ustring"

text \<open>
  The two tables on Basic Latin and Latin-1 Supplement, for evaluating the functions on
  concrete names. \<open>upperLatin1\<close> is the full upper-case mapping of a code unit below
  \<^verbatim>\<open>U+0100\<close>; \<open>decompLatin1\<close> lists the canonical decompositions of the code points up
  to \<^verbatim>\<open>U+00FF\<close> and of \<^verbatim>\<open>U+0178\<close>. Other code units are left as they are, which is
  right only for strings that stay in this range and hold no combining mark.
\<close>

definition upperLatin1 :: "cu \<Rightarrow> ustring" where
  "upperLatin1 c =
     (if 0x61 \<le> c \<and> c \<le> 0x7A then [c - 0x20]
      else if c = 0xB5 then [0x039C]
      else if c = 0xDF then [0x53, 0x53]
      else if 0xE0 \<le> c \<and> c \<le> 0xFE \<and> c \<noteq> 0xF7 then [c - 0x20]
      else if c = 0xFF then [0x0178]
      else [c])"

definition decompLatin1 :: "(cu \<times> ustring) list" where
  "decompLatin1 =
     [(0xC0, [0x41, 0x300]), (0xC1, [0x41, 0x301]), (0xC2, [0x41, 0x302]),
      (0xC3, [0x41, 0x303]), (0xC4, [0x41, 0x308]), (0xC5, [0x41, 0x30A]),
      (0xC7, [0x43, 0x327]),
      (0xC8, [0x45, 0x300]), (0xC9, [0x45, 0x301]), (0xCA, [0x45, 0x302]),
      (0xCB, [0x45, 0x308]),
      (0xCC, [0x49, 0x300]), (0xCD, [0x49, 0x301]), (0xCE, [0x49, 0x302]),
      (0xCF, [0x49, 0x308]),
      (0xD1, [0x4E, 0x303]),
      (0xD2, [0x4F, 0x300]), (0xD3, [0x4F, 0x301]), (0xD4, [0x4F, 0x302]),
      (0xD5, [0x4F, 0x303]), (0xD6, [0x4F, 0x308]),
      (0xD9, [0x55, 0x300]), (0xDA, [0x55, 0x301]), (0xDB, [0x55, 0x302]),
      (0xDC, [0x55, 0x308]),
      (0xDD, [0x59, 0x301]),
      (0xE0, [0x61, 0x300]), (0xE1, [0x61, 0x301]), (0xE2, [0x61, 0x302]),
      (0xE3, [0x61, 0x303]), (0xE4, [0x61, 0x308]), (0xE5, [0x61, 0x30A]),
      (0xE7, [0x63, 0x327]),
      (0xE8, [0x65, 0x300]), (0xE9, [0x65, 0x301]), (0xEA, [0x65, 0x302]),
      (0xEB, [0x65, 0x308]),
      (0xEC, [0x69, 0x300]), (0xED, [0x69, 0x301]), (0xEE, [0x69, 0x302]),
      (0xEF, [0x69, 0x308]),
      (0xF1, [0x6E, 0x303]),
      (0xF2, [0x6F, 0x300]), (0xF3, [0x6F, 0x301]), (0xF4, [0x6F, 0x302]),
      (0xF5, [0x6F, 0x303]), (0xF6, [0x6F, 0x308]),
      (0xF9, [0x75, 0x300]), (0xFA, [0x75, 0x301]), (0xFB, [0x75, 0x302]),
      (0xFC, [0x75, 0x308]),
      (0xFD, [0x79, 0x301]), (0xFF, [0x79, 0x308]),
      (0x178, [0x59, 0x308])]"

definition nfdLatin1 :: "cu \<Rightarrow> ustring" where
  "nfdLatin1 c = (case map_of decompLatin1 c of Some d \<Rightarrow> d | None \<Rightarrow> [c])"

definition latin1 :: platform where
  "latin1 = \<lparr> toUpperCase = (\<lambda>s. concat (map upperLatin1 s)),
              normalizeNFD = (\<lambda>s. concat (map nfdLatin1 s)) \<rparr>"

subsection \<open>cleanWord\<close>

definition parenthesized :: "atom list" where
  \<comment> \<open>\<^verbatim>\<open>/\s*\(.*?\)\s*/\<close>\<close>
  "parenthesized =
     [Star isWhiteSpace, One (\<lambda>c. c = 0x28), LazyStar isDot, One (\<lambda>c. c = 0x29),
      Star isWhiteSpace]"

definition cleanWord :: "platform \<Rightarrow> ustring \<Rightarrow> ustring" where
  "cleanWord P nm =
     trim
       (replaceAll [One notUpperOrSpace] []
         (replaceAll [One isCombiningMark] []
           (normalizeNFD P
             (replaceAll parenthesized []
               (toUpperCase P nm)))))"

section \<open>The game state\<close>

text \<open>
  \<open>gameState\<close> is the global object of \<^verbatim>\<open>script.js\<close>, together with what its functions
  reach outside it: the arrays on the heap, \<^verbatim>\<open>localStorage\<close> and the modal dialog. The rest
  of the DOM (texts, icons, the on-screen keyboard) is written and never read back by the
  game logic and is left out. The second source file is the same game without
  \<^verbatim>\<open>localStorage\<close> and without the reconciliation of \<^verbatim>\<open>loadContinent\<close>; its
  \<^verbatim>\<open>guessLetter\<close>, \<^verbatim>\<open>checkGameStatus\<close> and button back to the map are the ones modelled
  here, less the saves.

  \<^verbatim>\<open>gameState.dominated\<close> is a reference to an array, and \<^verbatim>\<open>checkGameStatus\<close> stores the
  same reference in the continent's status object, so the two alias. \<open>arrays\<close> is the
  heap of these arrays and \<open>dominated\<close> an address in it.

  Numbers are integers: the streaks and the troops are counters, the population is
  compared with a constant.
\<close>

datatype view = Menu | ContinentSelect | Game | Ranking

record country =
  name :: ustring
  flag :: ustring
  key :: ustring
  isDominated :: bool

text \<open>A status is a string or the object \<^verbatim>\<open>{ status, countries }\<close>, holding an array.\<close>

datatype status = Str ustring | Obj ustring nat

text \<open>
  What \<^verbatim>\<open>localStorage\<close> holds under the two keys. The best streak is absent (or the empty
  string), a text that \<^verbatim>\<open>parseInt\<close> reads as no number, or the decimal text of an integer.
  The continent status is absent, a text from which no continent can be read (\<^verbatim>\<open>JSON.parse\<close>
  throws, or gives no object), or a JSON object whose entries are strings or status objects,
  the two forms the game writes.
\<close>

datatype jstatus = JStr ustring | JObj ustring "ustring list"

datatype streak_item = NoStreak | NotANumber | Digits int

datatype status_item = NoStatus | BadJSON | Json "ustring \<Rightarrow> jstatus option"

record storage =
  bestStreakItem :: streak_item
  continentStatusItem :: status_item

text \<open>
  \<^verbatim>\<open>handleModal\<close> shows a dialog and installs the action of its button. \<open>signal\<close> is the
  dialog shown, with the values its text carries.
\<close>

datatype signal =
    CountryDominated ustring int
  | TroopsDepleted ustring
  | GlobalVictory
  | ContinentConquered ustring

datatype action = NewRound | ResetCampaign | ReturnToMap

record gameState =
  currentView :: view
  continentStatus :: "ustring \<Rightarrow> status option"
  currentStreak :: int
  bestStreak :: int
  currentContinent :: ustring
  countries :: "country list"
  dominated :: nat
  currentCountry :: "country option"
  targetWord :: ustring
  guessedLetters :: "ustring set"
  troops :: int
  isGameActive :: bool
  arrays :: "nat \<Rightarrow> ustring list"
  nextArray :: nat
  localStorage :: storage
  saveCalls :: nat
  signals :: "signal list"
  modalAction :: "action option"

definition CONTINENTS :: "ustring list" where
  "CONTINENTS = [ustr ''Africa'', ustr ''Americas'', ustr ''Asia'', ustr ''Europe'', ustr ''Oceania'']"

definition MAX_TROOPS :: int where
  "MAX_TROOPS = 3"

text \<open>
  The state when the script is loaded. \<open>saveCalls\<close> counts the calls of
  \<^verbatim>\<open>saveGameStateToStorage\<close>, \<open>signals\<close> lists the dialogs shown so far, and
  \<open>modalAction\<close> is the action of the dialog's button while the dialog is visible.
\<close>

definition initialState :: "storage \<Rightarrow> gameState" where
  "initialState st =
     \<lparr> currentView = Menu, continentStatus = Map.empty, currentStreak = 0, bestStreak = 0,
       currentContinent = [], countries = [], dominated = 0, currentCountry = None,
       targetWord = [], guessedLetters = {}, troops = MAX_TROOPS, isGameActive = False,
       arrays = (\<lambda>a. []), nextArray = 1, localStorage = st, saveCalls = 0, signals = [],
       modalAction = None \<rparr>"


definition showView :: "view \<Rightarrow> gameState \<Rightarrow> gameState" where
  "showView v s = s\<lparr>currentView := v\<rparr>"

subsection \<open>Persistence\<close>

fun stringify :: "(nat \<Rightarrow> ustring list) \<Rightarrow> status \<Rightarrow> jstatus" where
  "stringify h (Str x) = JStr x"
| "stringify h (Obj st a) = JObj st (h a)"

definition saveGameStateToStorage :: "gameState \<Rightarrow> gameState" where
  "saveGameStateToStorage s =
     s\<lparr>localStorage :=
         \<lparr> bestStreakItem = Digits (bestStreak s),
           continentStatusItem =
             Json (\<lambda>c. map_option (stringify (arrays s)) (continentStatus s c)) \<rparr>,
       saveCalls := saveCalls s + 1\<rparr>"

text \<open>
  \<open>loadStatus\<close> is the body of the \<^verbatim>\<open>forEach\<close> in \<^verbatim>\<open>loadGameStateFromStorage\<close>: a truthy
  entry (a non-empty string, an object) replaces the continent's status. A parsed object
  brings a new array.
\<close>

definition loadStatus :: "(ustring \<Rightarrow> jstatus option) \<Rightarrow> gameState \<Rightarrow> ustring \<Rightarrow> gameState" where
  "loadStatus j s c =
     (case j c of
        None \<Rightarrow> s
      | Some (JStr x) \<Rightarrow>
          if x = [] then s else s\<lparr>continentStatus := (continentStatus s)(c \<mapsto> Str x)\<rparr>
      | Some (JObj st ns) \<Rightarrow>
          s\<lparr>continentStatus := (continentStatus s)(c \<mapsto> Obj st (nextArray s)),
            arrays := (arrays s)(nextArray s := ns),
            nextArray := nextArray s + 1\<rparr>)"

definition loadGameStateFromStorage :: "gameState \<Rightarrow> gameState" where
  "loadGameStateFromStorage s =
     (let s1 = (case bestStreakItem (localStorage s) of
                  NoStreak \<Rightarrow> s
                | NotANumber \<Rightarrow> s\<lparr>bestStreak := 0\<rparr>
                | Digits n \<Rightarrow> s\<lparr>bestStreak := n\<rparr>)
      in case continentStatusItem (localStorage s1) of
           NoStatus \<Rightarrow> s1
         | BadJSON \<Rightarrow> s1
         | Json j \<Rightarrow> foldl (loadStatus j) s1 CONTINENTS)"

subsection \<open>Rendering and dialogs\<close>

definition renderStreak :: "gameState \<Rightarrow> gameState" where
  "renderStreak s =
     (if currentStreak s > bestStreak s
      then saveGameStateToStorage (s\<lparr>bestStreak := currentStreak s\<rparr>)
      else s)"

definition handleModal :: "signal \<Rightarrow> action \<Rightarrow> gameState \<Rightarrow> gameState" where
  "handleModal sig act s = s\<lparr>signals := signals s @ [sig], modalAction := Some act\<rparr>"

subsection \<open>Game flow\<close>

definition handleContinentWin :: "gameState \<Rightarrow> gameState" where
  "handleContinentWin s =
     (let s1 = saveGameStateToStorage
                 (s\<lparr>continentStatus :=
                      (continentStatus s)(currentContinent s \<mapsto> Str (ustr ''dominated''))\<rparr>);
          allDominated =
            list_all (\<lambda>c. continentStatus s1 c = Some (Str (ustr ''dominated''))) CONTINENTS
      in if allDominated then handleModal GlobalVictory ResetCampaign s1
         else handleModal (ContinentConquered (currentContinent s1)) ReturnToMap s1)"

text \<open>
  \<open>rnd\<close> stands for \<^verbatim>\<open>Math.random()\<close>: \<^verbatim>\<open>Math.floor(Math.random() * n)\<close> is some index
  below \<open>n\<close>, here \<open>rnd mod n\<close>.
\<close>

definition newRound :: "platform \<Rightarrow> nat \<Rightarrow> gameState \<Rightarrow> gameState" where
  "newRound P rnd s =
     (let availableCountries = filter (\<lambda>c. \<not> isDominated c) (countries s)
      in if length availableCountries = 0 then handleContinentWin s
         else
           let countryIndex = rnd mod length availableCountries;
               c = availableCountries ! countryIndex
           in renderStreak
                (s\<lparr>currentCountry := Some c,
                   targetWord := cleanWord P (name c),
                   guessedLetters := {},
                   troops := MAX_TROOPS,
                   isGameActive := True\<rparr>))"

text \<open>
  \<^verbatim>\<open>countries.find(c => c.key === countryKey)\<close> gives the first record with that key;
  \<open>markFirst\<close> sets its \<open>isDominated\<close>.
\<close>

fun markFirst :: "ustring \<Rightarrow> country list \<Rightarrow> country list" where
  "markFirst k [] = []"
| "markFirst k (c # cs) =
     (if key c = k then c\<lparr>isDominated := True\<rparr> # cs else c # markFirst k cs)"

definition wordLetters :: "ustring \<Rightarrow> ustring list" where
  \<comment> \<open>\<^verbatim>\<open>new Set(targetWord.replace(/\s/g, '').split(''))\<close>\<close>
  "wordLetters w = remdups (map (\<lambda>c. [c]) (replaceAll [One isWhiteSpace] [] w))"

definition correctlyGuessed :: "gameState \<Rightarrow> bool" where
  "correctlyGuessed s = list_all (\<lambda>letter. letter \<in> guessedLetters s) (wordLetters (targetWord s))"

text \<open>
  Reading \<^verbatim>\<open>gameState.currentCountry.key\<close> while \<open>currentCountry\<close> is \<^verbatim>\<open>null\<close> throws:
  the handler stops there and the state keeps what was written before.
\<close>

definition checkGameStatus :: "gameState \<Rightarrow> gameState" where
  "checkGameStatus s =
     (if \<not> isGameActive s then s
      else if correctlyGuessed s then
        (let s1 = renderStreak (s\<lparr>isGameActive := False, currentStreak := currentStreak s + 1\<rparr>)
         in case currentCountry s1 of
              None \<Rightarrow> s1
            | Some cur \<Rightarrow>
                let countryKey = key cur;
                    s2 = (case find (\<lambda>c. key c = countryKey) (countries s1) of
                            None \<Rightarrow> s1
                          | Some countryInList \<Rightarrow>
                              s1\<lparr>countries := markFirst countryKey (countries s1),
                                 arrays := (arrays s1)
                                   (dominated s1 := arrays s1 (dominated s1) @ [name countryInList])\<rparr>);
                    s3 = saveGameStateToStorage
                           (s2\<lparr>continentStatus :=
                                 (continentStatus s2)
                                   (currentContinent s2 \<mapsto> Obj (ustr ''in-progress'') (dominated s2))\<rparr>)
                in handleModal (CountryDominated (name cur) (currentStreak s3)) NewRound s3)
      else if troops s \<le> 0 then
        (let s1 = s\<lparr>isGameActive := False\<rparr>
         in case currentCountry s1 of
              None \<Rightarrow> s1
            | Some cur \<Rightarrow> handleModal (TroopsDepleted (name cur)) NewRound s1)
      else s)"

definition guessLetter :: "platform \<Rightarrow> ustring \<Rightarrow> gameState \<Rightarrow> gameState" where
  "guessLetter P letter s =
     (if \<not> isGameActive s then s
      else
        let upperLetter = toUpperCase P letter
        in if upperLetter \<in> guessedLetters s then s
           else
             let s1 = s\<lparr>guessedLetters := insert upperLetter (guessedLetters s)\<rparr>;
                 s2 = (if includes_str (targetWord s1) upperLetter then s1
                       else renderStreak (s1\<lparr>troops := troops s1 - 1, currentStreak := 0\<rparr>))
             in checkGameStatus s2)"

text \<open>
  What the country service answers. \<open>Rejected\<close> is a failed request or a body that is
  not JSON; otherwise \<^verbatim>\<open>response.ok\<close> and the parsed array. Of each entry the game reads
  \<^verbatim>\<open>name.common\<close>, \<^verbatim>\<open>flags.svg\<close>, \<^verbatim>\<open>population\<close> and \<^verbatim>\<open>area\<close>; \<open>area\<close> is the text
  that \<^verbatim>\<open>+\<close> appends for it.
\<close>

record api_country =
  common :: ustring
  svg :: ustring
  population :: int
  area :: ustring

datatype response = Rejected | Response bool "api_country list"

definition getCountryKey :: "platform \<Rightarrow> api_country \<Rightarrow> ustring" where
  "getCountryKey P c = cleanWord P (common c) @ area c"

text \<open>
  The \<^verbatim>\<open>forEach\<close> of \<^verbatim>\<open>loadContinent\<close> over the new records: \<open>a\<close> is the array of the
  stored status, \<open>d\<close> the array \<^verbatim>\<open>gameState.dominated\<close> refers to, and \<open>h\<close> the heap.
  The two addresses may be the same.
\<close>

type_synonym heap = "nat \<Rightarrow> ustring list"

fun remark :: "nat \<Rightarrow> nat \<Rightarrow> country list \<Rightarrow> heap \<Rightarrow> country list \<times> heap" where
  "remark a d [] h = ([], h)"
| "remark a d (c # cs) h =
     (if name c \<in> set (h a)
      then (let (cs', h') = remark a d cs (h(d := h d @ [name c]))
            in (c\<lparr>isDominated := True\<rparr> # cs', h'))
      else (let (cs', h') = remark a d cs h in (c # cs', h')))"

text \<open>
  The \<^verbatim>\<open>catch\<close> block: a message, and two seconds later the continent map. The request
  and the timer are taken as one step.
\<close>

definition loadFailed :: "gameState \<Rightarrow> gameState" where
  "loadFailed s = showView ContinentSelect s"

definition fetchedCountries :: "platform \<Rightarrow> api_country list \<Rightarrow> country list" where
  \<comment> \<open>the \<^verbatim>\<open>filter\<close> and \<^verbatim>\<open>map\<close> over the answer; the empty string is falsy\<close>
  "fetchedCountries P data =
     map (\<lambda>c. \<lparr> name = common c, flag = svg c, key = getCountryKey P c, isDominated = False \<rparr>)
       (filter (\<lambda>c. common c \<noteq> [] \<and> svg c \<noteq> [] \<and> population c > 100000) data)"

definition loadContinent :: "platform \<Rightarrow> nat \<Rightarrow> ustring \<Rightarrow> response \<Rightarrow> gameState \<Rightarrow> gameState" where
  "loadContinent P rnd continent resp s =
     (case resp of
        Rejected \<Rightarrow> loadFailed s
      | Response ok data \<Rightarrow>
          if \<not> ok then loadFailed s
          else
            let s1 = s\<lparr>countries := fetchedCountries P data\<rparr>
            in if length (countries s1) = 0 then loadFailed s1
               else
                 let s2 = (case continentStatus s1 continent of
                             Some (Obj st a) \<Rightarrow>
                               (let (cs, h) = remark a (dominated s1) (countries s1) (arrays s1)
                                in s1\<lparr>countries := cs, arrays := h\<rparr>)
                           | _ \<Rightarrow> s1);
                     s3 = s2\<lparr>currentContinent := continent\<rparr>;
                     s4 = s3\<lparr>arrays := (arrays s3)
                                (nextArray s3 := map name (filter isDominated (countries s3))),
                             dominated := nextArray s3,
                             nextArray := nextArray s3 + 1\<rparr>
                 in newRound P rnd s4)"

definition startGame :: "platform \<Rightarrow> nat \<Rightarrow> ustring \<Rightarrow> response \<Rightarrow> gameState \<Rightarrow> gameState" where
  "startGame P rnd continent resp s = loadContinent P rnd continent resp (showView Game s)"

definition initStatus :: "(ustring \<Rightarrow> status option) \<Rightarrow> ustring \<Rightarrow> (ustring \<Rightarrow> status option)" where
  \<comment> \<open>the body of the \<^verbatim>\<open>forEach\<close> in \<^verbatim>\<open>initializeAppUI\<close>; the empty string is falsy\<close>
  "initStatus m c =
     (case m c of
        None \<Rightarrow> m(c \<mapsto> Str (ustr ''available''))
      | Some (Str x) \<Rightarrow>
          if x = [] \<or> x = ustr ''available'' then m(c \<mapsto> Str (ustr ''available'')) else m
      | Some (Obj st a) \<Rightarrow> m(c \<mapsto> Str (if st = [] then ustr ''available'' else st)))"

definition initializeAppUI :: "gameState \<Rightarrow> gameState" where
  "initializeAppUI s =
     (let s1 = loadGameStateFromStorage s
      in showView Menu (s1\<lparr>continentStatus := foldl initStatus (continentStatus s1) CONTINENTS\<rparr>))"

definition backToMapButton :: "gameState \<Rightarrow> gameState" where
  "backToMapButton s = showView ContinentSelect (s\<lparr>isGameActive := False, currentStreak := 0\<rparr>)"

definition resetCampaign :: "gameState \<Rightarrow> gameState" where
  \<comment> \<open>the action of the global-victory dialog\<close>
  "resetCampaign s =
     showView Menu
       (initializeAppUI
         (saveGameStateToStorage
           (s\<lparr>continentStatus :=
                foldl (\<lambda>m c. m(c \<mapsto> Str (ustr ''available''))) (continentStatus s) CONTINENTS\<rparr>)))"

text \<open>The dialog's button hides the dialog and runs the installed action.\<close>

definition modalButton :: "platform \<Rightarrow> nat \<Rightarrow> gameState \<Rightarrow> gameState" where
  "modalButton P rnd s =
     (case modalAction s of
        None \<Rightarrow> s
      | Some act \<Rightarrow>
          (let s1 = s\<lparr>modalAction := None\<rparr>
           in case act of
                NewRound \<Rightarrow> newRound P rnd s1
              | ResetCampaign \<Rightarrow> resetCampaign s1
              | ReturnToMap \<Rightarrow> showView ContinentSelect s1))"

subsection \<open>A session\<close>

text \<open>
  The handlers the page installs, each with what the environment supplies to it: the
  answer of the country service and the random number.
\<close>

datatype event =
    WindowLoad
  | StartButton
  | RankingButton
  | BackToMenuFromMap
  | BackToMenuFromRanking
  | BackToMap
  | ContinentCard ustring response nat
  | LetterKey ustring
  | ModalButton nat

fun step :: "platform \<Rightarrow> gameState \<Rightarrow> event \<Rightarrow> gameState" where
  "step P s WindowLoad = initializeAppUI s"
| "step P s StartButton = showView ContinentSelect s"
| "step P s RankingButton = showView Ranking s"
| "step P s BackToMenuFromMap = showView Menu s"
| "step P s BackToMenuFromRanking = showView Menu s"
| "step P s BackToMap = backToMapButton s"
| "step P s (ContinentCard continent resp rnd) = startGame P rnd continent resp s"
| "step P s (LetterKey letter) = guessLetter P letter s"
| "step P s (ModalButton rnd) = modalButton P rnd s"

definition run :: "platform \<Rightarrow> gameState \<Rightarrow> event list \<Rightarrow> gameState" where
  "run P s es = foldl (step P) s es"

definition guesses :: "platform \<Rightarrow> gameState \<Rightarrow> ustring list \<Rightarrow> gameState" where
  \<comment> \<open>a sequence of \<^verbatim>\<open>guessLetter\<close> calls\<close>
  "guesses P s ls = foldl (\<lambda>s letter. guessLetter P letter s) s ls"

section \<open>Word normalization as the specification words it\<close>

text \<open>
  The five steps of the specification, written as list functions. A parenthesized segment
  starts at its opening parenthesis, together with the white space before it, and ends after
  the white space that follows its closing parenthesis; \<open>cl\<close> finds the closing
  parenthesis in the text after the opening one. \<open>closingParen\<close> takes the nearest one,
  \<open>closingParenOnLine\<close> the nearest one before any line terminator.
\<close>

fun closingParen :: "ustring \<Rightarrow> ustring option" where
  "closingParen [] = None"
| "closingParen (x # xs) = (if x = 0x29 then Some xs else closingParen xs)"

fun closingParenOnLine :: "ustring \<Rightarrow> ustring option" where
  "closingParenOnLine [] = None"
| "closingParenOnLine (x # xs) =
     (if x = 0x29 then Some xs
      else if isLineTerminator x then None
      else closingParenOnLine xs)"

definition segmentAt :: "(ustring \<Rightarrow> ustring option) \<Rightarrow> ustring \<Rightarrow> ustring option" where
  "segmentAt cl s =
     (case dropWhile isWhiteSpace s of
        [] \<Rightarrow> None
      | x # xs \<Rightarrow> if x = 0x28 then map_option (dropWhile isWhiteSpace) (cl xs) else None)"

function removeSegments :: "(ustring \<Rightarrow> ustring option) \<Rightarrow> ustring \<Rightarrow> ustring" where
  "removeSegments cl [] = []"
| "removeSegments cl (x # xs) =
     (case segmentAt cl (x # xs) of
        Some r \<Rightarrow>
          if length r < length (x # xs) then removeSegments cl r
          else x # removeSegments cl xs
      | None \<Rightarrow> x # removeSegments cl xs)"
  by pat_completeness auto
termination
  by (relation "measure (\<lambda>(cl, s). length s)") auto

definition normalizeSteps :: "(ustring \<Rightarrow> ustring option) \<Rightarrow> platform \<Rightarrow> ustring \<Rightarrow> ustring" where
  "normalizeSteps cl P nm =
     trim
       (filter (\<lambda>c. isUpperAZ c \<or> isWhiteSpace c)
         (filter (\<lambda>c. \<not> isCombiningMark c)
           (normalizeNFD P
             (removeSegments cl
               (toUpperCase P nm)))))"

definition normalize_spec :: "platform \<Rightarrow> ustring \<Rightarrow> ustring" where
  "normalize_spec = normalizeSteps closingParen"

fun spaceRun :: "ustring \<Rightarrow> bool" where
  \<comment> \<open>two white-space characters in a row somewhere\<close>
  "spaceRun (x # y # zs) = (isWhiteSpace x \<and> isWhiteSpace y \<or> spaceRun (y # zs))"
| "spaceRun _ = False"

section \<open>The win condition as the specification words it\<close>

text \<open>
  Every character of the word that is not a space (a character of the class \<^verbatim>\<open>\s\<close>, the
  one \<^verbatim>\<open>checkGameStatus\<close> removes) is among the guessed letters.
\<close>

definition allGuessed :: "gameState \<Rightarrow> bool" where
  "allGuessed s \<longleftrightarrow> (\<forall>c\<in>set (targetWord s). \<not> isWhiteSpace c \<longrightarrow> [c] \<in> guessedLetters s)"

section \<open>The stored best streak\<close>

text \<open>
  The best streak in storage is not below the one in memory. It holds when the page is
  loaded on a storage that holds no best streak or one that is not negative, and every save
  restores it.
\<close>

definition storedBestOk :: "gameState \<Rightarrow> bool" where
  "storedBestOk s =
     (case bestStreakItem (localStorage s) of
        NoStreak \<Rightarrow> True
      | NotANumber \<Rightarrow> bestStreak s \<le> 0
      | Digits n \<Rightarrow> bestStreak s \<le> n)"

text \<open>
  From \<open>s\<close> to \<open>s'\<close> the best streak has not gone down, no save has been undone,
  and every rise of the best streak has come with a save.
\<close>

definition savedOnRise :: "gameState \<Rightarrow> gameState \<Rightarrow> bool" where
  "savedOnRise s s' \<longleftrightarrow>
     bestStreak s \<le> bestStreak s' \<and> saveCalls s \<le> saveCalls s' \<and>
     (bestStreak s < bestStreak s' \<longrightarrow> saveCalls s < saveCalls s')"

section \<open>The troops of a session\<close>

text \<open>The troops are between 0 and 3, and above 0 while a round is active.\<close>

definition troopsOk :: "gameState \<Rightarrow> bool" where
  "troopsOk s \<longleftrightarrow> 0 \<le> troops s \<and> troops s \<le> 3 \<and> (isGameActive s \<longrightarrow> 0 < troops s)"

section \<open>Concrete inputs\<close>

text \<open>
  Names, answers of the country service and states on which the functions are evaluated.
  \<open>cote\<close> is the name of the specification's example, with \<^verbatim>\<open>U+00F4\<close> for the accented
  letter and \<^verbatim>\<open>U+0027\<close> for the apostrophe; \<open>lineBreakName\<close> has a line feed between
  its parentheses.
\<close>

definition cote :: ustring where
  "cote = ustr ''C'' @ [0xF4] @ ustr ''te d'' @ [0x27] @ ustr ''Ivoire (disputed)''"

definition lineBreakName :: ustring where
  "lineBreakName = ustr ''A (b'' @ [0x0A] @ ustr ''c)''"

definition peru :: api_country where
  "peru = \<lparr> common = ustr ''Peru'', svg = ustr ''pe.svg'', population = 34000000,
            area = ustr ''1285216'' \<rparr>"

definition chile :: api_country where
  "chile = \<lparr> common = ustr ''Chile'', svg = ustr ''cl.svg'', population = 19000000,
             area = ustr ''756102'' \<rparr>"

definition peruRecord :: country where
  "peruRecord = \<lparr> name = ustr ''Peru'', flag = ustr ''pe.svg'', key = ustr ''PERU1285216'',
                  isDominated = False \<rparr>"

definition noStorage :: storage where
  "noStorage = \<lparr> bestStreakItem = NoStreak, continentStatusItem = NoStatus \<rparr>"

definition peruOnly :: gameState where
  \<comment> \<open>a continent with one country to conquer, before the first round\<close>
  "peruOnly = (initialState noStorage)\<lparr>currentContinent := ustr ''Americas'', countries := [peruRecord]\<rparr>"

definition peruGuesses :: "ustring list" where
  "peruGuesses = [ustr ''p'', ustr ''e'', ustr ''r'', ustr ''u'']"

definition perGuessed :: gameState where
  \<comment> \<open>the round of Peru after P, E and R\<close>
  "perGuessed = guesses latin1 (newRound latin1 0 peruOnly) [ustr ''p'', ustr ''e'', ustr ''r'']"

definition wrongGuesses :: "ustring list" where
  "wrongGuesses = [ustr ''x'', ustr ''y'', ustr ''z'']"

definition digitsRecord :: country where
  \<comment> \<open>a name without a letter: its word is empty\<close>
  "digitsRecord = \<lparr> name = ustr ''123'', flag = ustr ''x.svg'', key = ustr ''7'',
                    isDominated = False \<rparr>"

definition digitsOnly :: gameState where
  "digitsOnly = (initialState noStorage)\<lparr>currentContinent := ustr ''Asia'', countries := [digitsRecord]\<rparr>"

definition peruWon :: gameState where
  \<comment> \<open>a session in which Peru has been conquered and the round of Chile is running\<close>
  "peruWon =
     run latin1 (initialState noStorage)
       [WindowLoad, StartButton,
        ContinentCard (ustr ''Americas'') (Response True [peru, chile]) 0,
        LetterKey (ustr ''p''), LetterKey (ustr ''e''), LetterKey (ustr ''r''),
        LetterKey (ustr ''u''), ModalButton 0]"






section \<open>Lemmas on strings\<close>

lemma replaceAll_One: "replaceAll [One p] [] s = filter (\<lambda>c. \<not> p c) s"
  by (induction s) auto

lemma rmatch_Star_last: "rmatch [Star p] s = Some (dropWhile p s)"
  by (induction s) auto

lemma rmatch_close:
  "rmatch [LazyStar isDot, One (\<lambda>c. c = 0x29), Star isWhiteSpace] s =
     map_option (dropWhile isWhiteSpace) (closingParenOnLine s)"
  by (induction s) (auto simp: rmatch_Star_last isDot_def)

lemma not_ws_paren: "\<not> isWhiteSpace 0x28"
  by (simp add: isWhiteSpace_def)

lemma rmatch_parenthesized: "rmatch parenthesized s = segmentAt closingParenOnLine s"
  unfolding parenthesized_def
  by (induction s) (auto simp: segmentAt_def rmatch_close not_ws_paren split: option.splits)

lemma replaceAll_parenthesized:
  "replaceAll parenthesized [] s = removeSegments closingParenOnLine s"
proof (induction s rule: length_induct)
  case (1 s)
  show ?case
  proof (cases s)
    case Nil
    then show ?thesis by (simp add: rmatch_parenthesized segmentAt_def)
  next
    case (Cons x xs)
    then show ?thesis using 1
      by (auto simp: rmatch_parenthesized split: option.splits)
  qed
qed

lemma cleanWord_steps: "cleanWord P nm = normalizeSteps closingParenOnLine P nm"
  by (simp add: cleanWord_def normalizeSteps_def replaceAll_One replaceAll_parenthesized
      notUpperOrSpace_def)

lemma closing_same:
  "\<forall>c\<in>set s. \<not> isLineTerminator c \<Longrightarrow> closingParenOnLine s = closingParen s"
  by (induction s) auto

lemma closingParen_set: "closingParen s = Some r \<Longrightarrow> set r \<subseteq> set s"
  by (induction s) (auto split: if_splits)

lemma segmentAt_same:
  assumes "\<forall>c\<in>set s. \<not> isLineTerminator c"
  shows "segmentAt closingParenOnLine s = segmentAt closingParen s"
proof (cases "dropWhile isWhiteSpace s")
  case Nil
  then show ?thesis by (simp only: segmentAt_def list.case)
next
  case (Cons x xs)
  then have "set xs \<subseteq> set s"
    by (metis set_dropWhileD set_subset_Cons subsetD subsetI)
  with assms have "closingParenOnLine xs = closingParen xs"
    by (intro closing_same) auto
  with Cons show ?thesis by (simp add: segmentAt_def)
qed

lemma segmentAt_set:
  assumes "segmentAt closingParen s = Some r"
  shows "set r \<subseteq> set s"
proof -
  from assms obtain xs r' where d: "dropWhile isWhiteSpace s = 0x28 # xs"
    and c: "closingParen xs = Some r'" and r: "r = dropWhile isWhiteSpace r'"
    by (auto simp: segmentAt_def split: list.splits if_splits)
  have "set r \<subseteq> set r'" using r by (auto dest: set_dropWhileD)
  also have "\<dots> \<subseteq> set xs" using c by (rule closingParen_set)
  also have "\<dots> \<subseteq> set s" using d by (metis set_dropWhileD set_subset_Cons subsetD subsetI)
  finally show ?thesis .
qed

lemma removeSegments_same:
  "\<forall>c\<in>set s. \<not> isLineTerminator c \<Longrightarrow>
     removeSegments closingParenOnLine s = removeSegments closingParen s"
proof (induction s rule: length_induct)
  case (1 s)
  show ?case
  proof (cases s)
    case Nil
    then show ?thesis by simp
  next
    case (Cons x xs)
    have same: "segmentAt closingParenOnLine s = segmentAt closingParen s"
      using "1.prems" by (rule segmentAt_same)
    have tl: "removeSegments closingParenOnLine xs = removeSegments closingParen xs"
      using 1 Cons by simp
    show ?thesis
    proof (cases "segmentAt closingParen s")
      case None
      with same tl Cons show ?thesis by simp
    next
      case (Some r)
      then have "set r \<subseteq> set s" by (rule segmentAt_set)
      with "1.prems" have nl: "\<forall>c\<in>set r. \<not> isLineTerminator c" by auto
      show ?thesis
      proof (cases "length r < length s")
        case True
        with 1 nl have "removeSegments closingParenOnLine r = removeSegments closingParen r"
          by simp
        with same Some True Cons show ?thesis by simp
      next
        case False
        with same Some tl Cons show ?thesis by simp
      qed
    qed
  qed
qed

lemma trim_subset: "set (trim s) \<subseteq> set s"
  by (auto simp: trim_def dest!: set_dropWhileD)

lemma trim_ends:
  assumes "trim s \<noteq> []"
  shows "\<not> isWhiteSpace (hd (trim s))" and "\<not> isWhiteSpace (last (trim s))"
proof -
  let ?t = "dropWhile isWhiteSpace s"
  let ?u = "dropWhile isWhiteSpace (rev ?t)"
  from assms have u: "?u \<noteq> []" by (simp add: trim_def)
  have t: "?t \<noteq> []"
  proof
    assume "?t = []"
    then have "?u = []" by (simp only: rev.simps dropWhile.simps)
    with u show False by simp
  qed
  have "last (trim s) = hd ?u" using u by (simp add: trim_def last_rev)
  moreover have "\<not> isWhiteSpace (hd ?u)" using u by (rule hd_dropWhile)
  ultimately show "\<not> isWhiteSpace (last (trim s))" by simp
  have "hd (trim s) = last ?u" using u by (simp add: trim_def hd_rev)
  also have "\<dots> = last (rev ?t)" using u by (metis takeWhile_dropWhile_id last_appendR)
  also have "\<dots> = hd ?t" using t by (simp add: last_rev)
  finally have "hd (trim s) = hd ?t" .
  moreover have "\<not> isWhiteSpace (hd ?t)" using t by (rule hd_dropWhile)
  ultimately show "\<not> isWhiteSpace (hd (trim s))" by simp
qed

lemma cleanWord_chars: "x \<in> set (cleanWord P nm) \<Longrightarrow> isUpperAZ x \<or> isWhiteSpace x"
  using trim_subset by (fastforce simp: cleanWord_steps normalizeSteps_def)

lemma cleanWord_ends:
  assumes "cleanWord P nm \<noteq> []"
  shows "isUpperAZ (hd (cleanWord P nm))" and "isUpperAZ (last (cleanWord P nm))"
proof -
  have "hd (cleanWord P nm) \<in> set (cleanWord P nm)" "last (cleanWord P nm) \<in> set (cleanWord P nm)"
    using assms by simp_all
  moreover have "\<not> isWhiteSpace (hd (cleanWord P nm))" "\<not> isWhiteSpace (last (cleanWord P nm))"
    using assms trim_ends unfolding cleanWord_def by blast+
  ultimately show "isUpperAZ (hd (cleanWord P nm))" "isUpperAZ (last (cleanWord P nm))"
    using cleanWord_chars by blast+
qed

lemma cleanWord_Peru: "cleanWord latin1 (ustr ''Peru'') = ustr ''PERU''"
  by code_simp

section \<open>Lemmas on the game functions\<close>

lemma save_fields [simp]:
  "troops (saveGameStateToStorage s) = troops s"
  "isGameActive (saveGameStateToStorage s) = isGameActive s"
  "guessedLetters (saveGameStateToStorage s) = guessedLetters s"
  "targetWord (saveGameStateToStorage s) = targetWord s"
  "currentStreak (saveGameStateToStorage s) = currentStreak s"
  "bestStreak (saveGameStateToStorage s) = bestStreak s"
  "countries (saveGameStateToStorage s) = countries s"
  "currentCountry (saveGameStateToStorage s) = currentCountry s"
  "continentStatus (saveGameStateToStorage s) = continentStatus s"
  "currentContinent (saveGameStateToStorage s) = currentContinent s"
  "arrays (saveGameStateToStorage s) = arrays s"
  "dominated (saveGameStateToStorage s) = dominated s"
  "nextArray (saveGameStateToStorage s) = nextArray s"
  "signals (saveGameStateToStorage s) = signals s"
  "modalAction (saveGameStateToStorage s) = modalAction s"
  "currentView (saveGameStateToStorage s) = currentView s"
  "saveCalls (saveGameStateToStorage s) = saveCalls s + 1"
  "bestStreakItem (localStorage (saveGameStateToStorage s)) = Digits (bestStreak s)"
  by (simp_all add: saveGameStateToStorage_def)

lemma renderStreak_fields [simp]:
  "troops (renderStreak s) = troops s"
  "isGameActive (renderStreak s) = isGameActive s"
  "guessedLetters (renderStreak s) = guessedLetters s"
  "targetWord (renderStreak s) = targetWord s"
  "currentStreak (renderStreak s) = currentStreak s"
  "countries (renderStreak s) = countries s"
  "currentCountry (renderStreak s) = currentCountry s"
  "continentStatus (renderStreak s) = continentStatus s"
  "currentContinent (renderStreak s) = currentContinent s"
  "arrays (renderStreak s) = arrays s"
  "dominated (renderStreak s) = dominated s"
  "nextArray (renderStreak s) = nextArray s"
  "signals (renderStreak s) = signals s"
  "modalAction (renderStreak s) = modalAction s"
  "currentView (renderStreak s) = currentView s"
  "bestStreak (renderStreak s) = max (bestStreak s) (currentStreak s)"
  by (simp_all add: renderStreak_def)

lemma handleModal_fields [simp]:
  "troops (handleModal sig act s) = troops s"
  "isGameActive (handleModal sig act s) = isGameActive s"
  "guessedLetters (handleModal sig act s) = guessedLetters s"
  "targetWord (handleModal sig act s) = targetWord s"
  "currentStreak (handleModal sig act s) = currentStreak s"
  "bestStreak (handleModal sig act s) = bestStreak s"
  "countries (handleModal sig act s) = countries s"
  "currentCountry (handleModal sig act s) = currentCountry s"
  "continentStatus (handleModal sig act s) = continentStatus s"
  "currentContinent (handleModal sig act s) = currentContinent s"
  "arrays (handleModal sig act s) = arrays s"
  "dominated (handleModal sig act s) = dominated s"
  "nextArray (handleModal sig act s) = nextArray s"
  "localStorage (handleModal sig act s) = localStorage s"
  "saveCalls (handleModal sig act s) = saveCalls s"
  "currentView (handleModal sig act s) = currentView s"
  "signals (handleModal sig act s) = signals s @ [sig]"
  "modalAction (handleModal sig act s) = Some act"
  by (simp_all add: handleModal_def)

lemma checkGameStatus_frame:
  "troops (checkGameStatus s) = troops s"
  "guessedLetters (checkGameStatus s) = guessedLetters s"
  "targetWord (checkGameStatus s) = targetWord s"
  "currentCountry (checkGameStatus s) = currentCountry s"
  "currentContinent (checkGameStatus s) = currentContinent s"
  "dominated (checkGameStatus s) = dominated s"
  "nextArray (checkGameStatus s) = nextArray s"
  by (simp_all add: checkGameStatus_def Let_def split: option.splits)

lemma checkGameStatus_active:
  "isGameActive (checkGameStatus s) \<longleftrightarrow> isGameActive s \<and> \<not> correctlyGuessed s \<and> 0 < troops s"
  by (auto simp: checkGameStatus_def Let_def split: option.splits)

lemma guessLetter_noop:
  "\<not> isGameActive s \<or> toUpperCase P letter \<in> guessedLetters s \<Longrightarrow> guessLetter P letter s = s"
  by (auto simp: guessLetter_def)

lemma guessLetter_frame:
  "targetWord (guessLetter P letter s) = targetWord s"
  "currentCountry (guessLetter P letter s) = currentCountry s"
  "currentContinent (guessLetter P letter s) = currentContinent s"
  by (simp_all add: guessLetter_def Let_def checkGameStatus_frame)

lemma guessLetter_guessed:
  "guessedLetters (guessLetter P letter s) =
     (if isGameActive s then insert (toUpperCase P letter) (guessedLetters s) else guessedLetters s)"
  by (auto simp: guessLetter_def Let_def checkGameStatus_frame)

lemma guessLetter_idem: "guessLetter P letter (guessLetter P letter s) = guessLetter P letter s"
proof (cases "isGameActive s")
  case True
  then show ?thesis by (intro guessLetter_noop) (simp add: guessLetter_guessed)
next
  case False
  then show ?thesis by (simp add: guessLetter_noop)
qed

lemma guessLetter_troops:
  "troops (guessLetter P letter s) =
     (if isGameActive s \<and> toUpperCase P letter \<notin> guessedLetters s
         \<and> \<not> includes_str (targetWord s) (toUpperCase P letter)
      then troops s - 1 else troops s)"
  by (simp add: guessLetter_def Let_def checkGameStatus_frame)

lemma newRound_start:
  assumes "\<exists>c\<in>set (countries s). \<not> isDominated c"
  shows "\<exists>c\<in>set (countries s). \<not> isDominated c \<and>
           currentCountry (newRound P rnd s) = Some c \<and>
           targetWord (newRound P rnd s) = cleanWord P (name c)"
    and "troops (newRound P rnd s) = 3"
    and "isGameActive (newRound P rnd s)"
    and "guessedLetters (newRound P rnd s) = {}"
    and "signals (newRound P rnd s) = signals s"
proof -
  let ?av = "filter (\<lambda>c. \<not> isDominated c) (countries s)"
  from assms have ne: "?av \<noteq> []" by (simp add: filter_empty_conv)
  then have "rnd mod length ?av < length ?av" by simp
  then have "?av ! (rnd mod length ?av) \<in> set ?av" by (rule nth_mem)
  then have "?av ! (rnd mod length ?av) \<in> {c \<in> set (countries s). \<not> isDominated c}"
    by (simp only: set_filter)
  then have c: "?av ! (rnd mod length ?av) \<in> set (countries s)"
    "\<not> isDominated (?av ! (rnd mod length ?av))" by blast+
  from ne show "troops (newRound P rnd s) = 3" "isGameActive (newRound P rnd s)"
    "guessedLetters (newRound P rnd s) = {}" "signals (newRound P rnd s) = signals s"
    by (simp_all add: newRound_def Let_def MAX_TROOPS_def)
  from ne c show "\<exists>c\<in>set (countries s). \<not> isDominated c \<and>
           currentCountry (newRound P rnd s) = Some c \<and>
           targetWord (newRound P rnd s) = cleanWord P (name c)"
    by (intro bexI [of _ "?av ! (rnd mod length ?av)"]) (simp_all add: newRound_def Let_def)
qed

section \<open>Word normalization\<close>

text \<open>
  C5, as amended. \<open>cleanWord\<close> is a function of the name (and of the platform's two
  Unicode tables) that applies, in this order: upper-casing; removal of every parenthesized
  segment that closes before any line terminator, from the white space before its opening
  parenthesis to the white space after the nearest closing one; canonical decomposition and
  removal of the combining marks \<^verbatim>\<open>U+0300\<close> to \<^verbatim>\<open>U+036F\<close>; removal of every code unit that
  is neither one of A to Z nor white space; trimming. Where the upper-cased name holds no line
  terminator this is the normalization of the specification, and the name of the
  specification's example gives \<^verbatim>\<open>COTE DIVOIRE\<close>.
\<close>

theorem cleanWord_pipeline:
  "cleanWord P nm = normalizeSteps closingParenOnLine P nm \<and>
   ((\<forall>c\<in>set (toUpperCase P nm). \<not> isLineTerminator c) \<longrightarrow>
      cleanWord P nm = normalize_spec P nm) \<and>
   cleanWord latin1 cote = ustr ''COTE DIVOIRE''"
proof (intro conjI impI)
  show "cleanWord P nm = normalizeSteps closingParenOnLine P nm" by (rule cleanWord_steps)
  show "cleanWord latin1 cote = ustr ''COTE DIVOIRE''" by code_simp
next
  assume "\<forall>c\<in>set (toUpperCase P nm). \<not> isLineTerminator c"
  then show "cleanWord P nm = normalize_spec P nm"
    by (simp add: cleanWord_steps normalizeSteps_def normalize_spec_def removeSegments_same)
qed

theorem cleanWord_pipeline_witness:
  "list_all (\<lambda>c. \<not> isLineTerminator c) (toUpperCase latin1 (ustr ''Peru (PE)'')) \<and>
   cleanWord latin1 (ustr ''Peru (PE)'') = normalize_spec latin1 (ustr ''Peru (PE)'') \<and>
   normalize_spec latin1 (ustr ''Peru (PE)'') = ustr ''PERU''"
proof -
  have h: "list_all (\<lambda>c. \<not> isLineTerminator c) (toUpperCase latin1 (ustr ''Peru (PE)''))"
    by code_simp
  then have h': "\<forall>c\<in>set (toUpperCase latin1 (ustr ''Peru (PE)'')). \<not> isLineTerminator c"
    by (simp only: list_all_iff)
  have v: "normalize_spec latin1 (ustr ''Peru (PE)'') = ustr ''PERU''"
    by code_simp
  from cleanWord_pipeline [of latin1 "ustr ''Peru (PE)''"] h'
  have e: "cleanWord latin1 (ustr ''Peru (PE)'') = normalize_spec latin1 (ustr ''Peru (PE)'')"
    by blast
  from h e v show ?thesis by blast
qed

text \<open>
  C5 as stated fails where a line terminator stands between the parentheses: the pattern's
  \<^verbatim>\<open>.\<close> does not match it, so the segment stays, and only its two parentheses are removed
  by the fourth step.
\<close>

theorem cleanWord_line_break_counterexample:
  "cleanWord latin1 lineBreakName = ustr ''A B'' @ [0x0A] @ ustr ''C'' \<and>
   normalize_spec latin1 lineBreakName = ustr ''A'' \<and>
   cleanWord latin1 lineBreakName \<noteq> normalize_spec latin1 lineBreakName"
  by code_simp

text \<open>
  C6, as amended. The word of a new round is \<open>cleanWord\<close> of the name of a country not yet
  dominated. Whatever the name, \<open>cleanWord\<close> of it holds only the letters A to Z and
  white space, and when it is not empty it starts and ends with a letter: there is no
  leading or trailing space. Spaces inside the word are kept as they come.
\<close>

theorem targetWord_shape:
  assumes "\<exists>c\<in>set (countries s). \<not> isDominated c"
  shows "(\<exists>c\<in>set (countries s). \<not> isDominated c \<and>
            targetWord (newRound P rnd s) = cleanWord P (name c)) \<and>
         (\<forall>x\<in>set (cleanWord P nm). isUpperAZ x \<or> isWhiteSpace x) \<and>
         (cleanWord P nm \<noteq> [] \<longrightarrow>
            isUpperAZ (hd (cleanWord P nm)) \<and> isUpperAZ (last (cleanWord P nm)))"
  using newRound_start(1) [OF assms, of P rnd] cleanWord_chars [of _ P nm] cleanWord_ends [of P nm]
  by blast

theorem targetWord_shape_witness:
  "(\<exists>c\<in>set (countries peruOnly). \<not> isDominated c) \<and>
   targetWord (newRound latin1 0 peruOnly) = ustr ''PERU'' \<and>
   list_all (\<lambda>x. isUpperAZ x \<or> isWhiteSpace x) (ustr ''PERU'') \<and>
   isUpperAZ (hd (ustr ''PERU'')) \<and> isUpperAZ (last (ustr ''PERU''))"
proof -
  have h: "\<exists>c\<in>set (countries peruOnly). \<not> isDominated c"
    by (simp add: peruOnly_def peruRecord_def)
  have cs: "countries peruOnly = [peruRecord]" "name peruRecord = ustr ''Peru''"
    by (simp_all add: peruOnly_def peruRecord_def)
  have ne: "ustr ''PERU'' \<noteq> []"
    by (simp add: ustr_def)
  from targetWord_shape [OF h, of latin1 0 "ustr ''Peru''"] ne h show ?thesis
    by (simp add: cs cleanWord_Peru list_all_iff)
qed

text \<open>
  C6 as stated fails on a name with a removed character between two spaces: both spaces stay.
\<close>

theorem cleanWord_space_run_counterexample:
  "cleanWord latin1 (ustr ''A - B'') = ustr ''A  B'' \<and>
   spaceRun (cleanWord latin1 (ustr ''A - B''))"
  by code_simp

section \<open>Guessing a letter\<close>

lemma correctlyGuessed_iff: "correctlyGuessed s = allGuessed s"
  by (auto simp: correctlyGuessed_def wordLetters_def allGuessed_def replaceAll_One list_all_iff)

lemma includes_single: "c \<in> set w \<Longrightarrow> includes_str w [c]"
  by (induction w) auto

lemma wrong_guess_incomplete:
  assumes "\<not> allGuessed s" and "\<not> includes_str (targetWord s) u"
    and "targetWord s' = targetWord s" and "guessedLetters s' = insert u (guessedLetters s)"
  shows "\<not> allGuessed s'"
proof
  assume a: "allGuessed s'"
  from assms(1) obtain c where c: "c \<in> set (targetWord s)" "\<not> isWhiteSpace c" "[c] \<notin> guessedLetters s"
    by (auto simp: allGuessed_def)
  with a assms(3,4) have "[c] = u" by (auto simp: allGuessed_def)
  with c(1) assms(2) show False using includes_single by blast
qed

lemma checkGameStatus_win:
  assumes "isGameActive s" "currentCountry s = Some c" "allGuessed s"
  shows "\<not> isGameActive (checkGameStatus s)"
    and "signals (checkGameStatus s) = signals s @ [CountryDominated (name c) (currentStreak s + 1)]"
    and "currentStreak (checkGameStatus s) = currentStreak s + 1"
    and "modalAction (checkGameStatus s) = Some NewRound"
    and "saveCalls (checkGameStatus s) > saveCalls s"
  using assms
  by (simp_all add: checkGameStatus_def correctlyGuessed_iff Let_def renderStreak_def split: option.splits)

lemma checkGameStatus_loss:
  assumes "isGameActive s" "currentCountry s = Some c" "\<not> allGuessed s" "troops s \<le> 0"
  shows "checkGameStatus s = handleModal (TroopsDepleted (name c)) NewRound (s\<lparr>isGameActive := False\<rparr>)"
  using assms by (simp add: checkGameStatus_def correctlyGuessed_iff Let_def)

lemma checkGameStatus_continue:
  assumes "\<not> allGuessed s" "0 < troops s"
  shows "checkGameStatus s = s"
  using assms by (simp add: checkGameStatus_def correctlyGuessed_iff Let_def)

lemma allGuessed_check: "allGuessed (checkGameStatus s) = allGuessed s"
  by (simp add: allGuessed_def checkGameStatus_frame)

lemma checkGameStatus_streak:
  "currentStreak (checkGameStatus s) =
     (if isGameActive s \<and> allGuessed s then currentStreak s + 1 else currentStreak s)"
  by (simp add: checkGameStatus_def correctlyGuessed_iff Let_def split: option.splits)

text \<open>One guess in an active round whose word is not complete: the three outcomes.\<close>

lemma guessLetter_step:
  assumes act: "isGameActive s" and cur: "currentCountry s = Some c"
    and inc: "\<not> allGuessed s" and tr: "0 < troops s"
  shows "(isGameActive (guessLetter P l s) \<and> signals (guessLetter P l s) = signals s \<and>
            \<not> allGuessed (guessLetter P l s) \<and> 0 < troops (guessLetter P l s)) \<or>
         (\<not> isGameActive (guessLetter P l s) \<and>
            signals (guessLetter P l s) =
              signals s @ [CountryDominated (name c) (currentStreak (guessLetter P l s))] \<and>
            allGuessed (guessLetter P l s) \<and> 0 < troops (guessLetter P l s)) \<or>
         (\<not> isGameActive (guessLetter P l s) \<and>
            signals (guessLetter P l s) = signals s @ [TroopsDepleted (name c)] \<and>
            \<not> allGuessed (guessLetter P l s) \<and> troops (guessLetter P l s) \<le> 0)"
proof (cases "toUpperCase P l \<in> guessedLetters s")
  case True
  then have "guessLetter P l s = s" by (simp add: guessLetter_noop)
  with assms show ?thesis by simp
next
  case new: False
  let ?u = "toUpperCase P l"
  let ?s1 = "s\<lparr>guessedLetters := insert ?u (guessedLetters s)\<rparr>"
  show ?thesis
  proof (cases "includes_str (targetWord s) ?u")
    case True
    with act new have g: "guessLetter P l s = checkGameStatus ?s1"
      by (simp add: guessLetter_def Let_def)
    show ?thesis
    proof (cases "allGuessed ?s1")
      case True
      have "isGameActive ?s1" "currentCountry ?s1 = Some c" using act cur by simp_all
      from checkGameStatus_win [OF this True] True tr show ?thesis
        unfolding g by (simp add: allGuessed_check checkGameStatus_frame)
    next
      case False
      with tr have "checkGameStatus ?s1 = ?s1" by (intro checkGameStatus_continue) simp_all
      with False act tr show ?thesis unfolding g by simp
    qed
  next
    case False
    let ?s2 = "renderStreak (?s1\<lparr>troops := troops s - 1, currentStreak := 0\<rparr>)"
    from False act new have g: "guessLetter P l s = checkGameStatus ?s2"
      by (simp add: guessLetter_def Let_def)
    have n2: "\<not> allGuessed ?s2"
      by (rule wrong_guess_incomplete [OF inc False]) simp_all
    have a2: "isGameActive ?s2" "currentCountry ?s2 = Some c" using act cur by simp_all
    show ?thesis
    proof (cases "troops s - 1 \<le> 0")
      case True
      then have "troops ?s2 \<le> 0" by simp
      from checkGameStatus_loss [OF a2 n2 this] n2 True show ?thesis
        unfolding g by (simp add: allGuessed_def)
    next
      case False
      then have "0 < troops ?s2" by simp
      from checkGameStatus_continue [OF n2 this] n2 False act show ?thesis
        unfolding g by simp
    qed
  qed
qed

lemma guesses_snoc: "guesses P s (ls @ [l]) = guessLetter P l (guesses P s ls)"
  by (simp add: guesses_def)

lemma guesses_currentCountry: "currentCountry (guesses P s ls) = currentCountry s"
  by (induction ls rule: rev_induct) (simp_all add: guesses_snoc guessLetter_frame, simp add: guesses_def)

lemma round_inv:
  assumes "isGameActive s0" and cur: "currentCountry s0 = Some c"
    and "\<not> allGuessed s0" and "0 < troops s0"
  shows "(isGameActive (guesses P s0 ls) \<and> signals (guesses P s0 ls) = signals s0 \<and>
            \<not> allGuessed (guesses P s0 ls) \<and> 0 < troops (guesses P s0 ls)) \<or>
         (\<not> isGameActive (guesses P s0 ls) \<and>
            signals (guesses P s0 ls) =
              signals s0 @ [CountryDominated (name c) (currentStreak (guesses P s0 ls))] \<and>
            allGuessed (guesses P s0 ls) \<and> 0 < troops (guesses P s0 ls)) \<or>
         (\<not> isGameActive (guesses P s0 ls) \<and>
            signals (guesses P s0 ls) = signals s0 @ [TroopsDepleted (name c)] \<and>
            \<not> allGuessed (guesses P s0 ls) \<and> troops (guesses P s0 ls) \<le> 0)"
proof (induction ls rule: rev_induct)
  case Nil
  with assms show ?case by (simp add: guesses_def)
next
  case (snoc l ls)
  let ?s = "guesses P s0 ls"
  show ?case
  proof (cases "isGameActive ?s")
    case True
    with snoc have pre: "signals ?s = signals s0" "\<not> allGuessed ?s" "0 < troops ?s" by auto
    have "currentCountry ?s = Some c" by (simp add: guesses_currentCountry cur)
    from guessLetter_step [OF True this pre(2,3), of P l] pre(1) show ?thesis
      by (simp add: guesses_snoc)
  next
    case False
    then have "guessLetter P l ?s = ?s" by (simp add: guessLetter_noop)
    with snoc show ?thesis by (simp add: guesses_snoc)
  qed
qed

lemma cleanWord_not_allGuessed:
  assumes "targetWord s = cleanWord P nm" "targetWord s \<noteq> []" "guessedLetters s = {}"
  shows "\<not> allGuessed s"
proof -
  from assms have "\<not> isWhiteSpace (hd (targetWord s))"
    using trim_ends(1) unfolding cleanWord_def by metis
  moreover from assms have "hd (targetWord s) \<in> set (targetWord s)" by simp
  ultimately show ?thesis using assms(3) by (auto simp: allGuessed_def)
qed

lemma newRound_inv:
  assumes av: "\<exists>c\<in>set (countries s). \<not> isDominated c"
    and ne: "targetWord (newRound P rnd s) \<noteq> []"
  obtains c where "isGameActive (newRound P rnd s)" "currentCountry (newRound P rnd s) = Some c"
    "\<not> allGuessed (newRound P rnd s)" "0 < troops (newRound P rnd s)"
proof -
  from newRound_start(1) [OF av, of P rnd] obtain c where
    c: "currentCountry (newRound P rnd s) = Some c"
       "targetWord (newRound P rnd s) = cleanWord P (name c)" by blast
  have "\<not> allGuessed (newRound P rnd s)"
    using c(2) ne newRound_start(4) [OF av] by (rule cleanWord_not_allGuessed)
  with c(1) newRound_start(2,3) [OF av, of P rnd] that show thesis by simp
qed

lemma guessLetter_troops_inv:
  assumes "0 \<le> troops s" "troops s \<le> 3" "isGameActive s \<longrightarrow> 0 < troops s"
  shows "0 \<le> troops (guessLetter P l s)" "troops (guessLetter P l s) \<le> 3"
    "isGameActive (guessLetter P l s) \<longrightarrow> 0 < troops (guessLetter P l s)"
  using assms
  by (auto simp: guessLetter_def Let_def checkGameStatus_frame checkGameStatus_active)

lemma guesses_troops_inv:
  assumes "0 \<le> troops s" "troops s \<le> 3" "isGameActive s \<longrightarrow> 0 < troops s"
  shows "0 \<le> troops (guesses P s ls) \<and> troops (guesses P s ls) \<le> 3 \<and>
         (isGameActive (guesses P s ls) \<longrightarrow> 0 < troops (guesses P s ls))"
proof (induction ls rule: rev_induct)
  case Nil
  with assms show ?case by (simp add: guesses_def)
next
  case (snoc l ls)
  then show ?case using guessLetter_troops_inv [of "guesses P s ls" P l]
    by (simp add: guesses_snoc)
qed

text \<open>
  C9. \<open>guessLetter\<close> returns the state it was given when the round is not active or the
  upper-cased letter is already among the guessed letters, so no field of the state changes;
  and guessing the same letter twice gives the state of guessing it once.
\<close>

theorem guessLetter_no_op:
  "(\<not> isGameActive s \<or> toUpperCase P letter \<in> guessedLetters s \<longrightarrow> guessLetter P letter s = s) \<and>
   guessLetter P letter (guessLetter P letter s) = guessLetter P letter s"
  using guessLetter_noop [of s P letter] guessLetter_idem [of P letter s] by blast

theorem guessLetter_no_op_witness:
  "\<not> isGameActive (initialState noStorage) \<and>
   guessLetter latin1 (ustr ''a'') (initialState noStorage) = initialState noStorage"
  using guessLetter_no_op [of "initialState noStorage" latin1 "ustr ''a''"]
  by (simp add: initialState_def)

text \<open>
  C2, as amended. In an active round, for a letter whose upper case has not been guessed: if
  the word does not contain it, the troops go down by exactly one, and the current streak is
  0 after the call unless the word was already complete before it (a word without a letter),
  where the same call goes on to win the round; if the word contains it, the troops are
  unchanged, and the current streak is unchanged unless this guess completes the word, where
  the win adds one to it.
\<close>

theorem guessLetter_cost:
  assumes act: "isGameActive s" and new: "toUpperCase P letter \<notin> guessedLetters s"
  shows "(\<not> includes_str (targetWord s) (toUpperCase P letter) \<longrightarrow>
            troops (guessLetter P letter s) = troops s - 1 \<and>
            (\<not> allGuessed s \<longrightarrow> currentStreak (guessLetter P letter s) = 0)) \<and>
         (includes_str (targetWord s) (toUpperCase P letter) \<longrightarrow>
            troops (guessLetter P letter s) = troops s \<and>
            currentStreak (guessLetter P letter s) =
              (if allGuessed (guessLetter P letter s) then currentStreak s + 1 else currentStreak s))"
proof (intro conjI impI)
  let ?u = "toUpperCase P letter"
  let ?s1 = "s\<lparr>guessedLetters := insert ?u (guessedLetters s)\<rparr>"
  let ?s2 = "renderStreak (?s1\<lparr>troops := troops s - 1, currentStreak := 0\<rparr>)"
  {
    assume w: "\<not> includes_str (targetWord s) ?u"
    with act new show "troops (guessLetter P letter s) = troops s - 1"
      by (simp add: guessLetter_troops)
    assume inc: "\<not> allGuessed s"
    from w act new have g: "guessLetter P letter s = checkGameStatus ?s2"
      by (simp add: guessLetter_def Let_def)
    have "\<not> allGuessed ?s2" by (rule wrong_guess_incomplete [OF inc w]) simp_all
    then show "currentStreak (guessLetter P letter s) = 0"
      unfolding g by (simp add: checkGameStatus_streak)
  }
  {
    assume r: "includes_str (targetWord s) ?u"
    with act new show "troops (guessLetter P letter s) = troops s"
      by (simp add: guessLetter_troops)
    from r act new have g: "guessLetter P letter s = checkGameStatus ?s1"
      by (simp add: guessLetter_def Let_def)
    show "currentStreak (guessLetter P letter s) =
              (if allGuessed (guessLetter P letter s) then currentStreak s + 1 else currentStreak s)"
      unfolding g using act by (simp add: checkGameStatus_streak allGuessed_check)
  }
qed

theorem guessLetter_cost_witness:
  "isGameActive perGuessed \<and> toUpperCase latin1 (ustr ''x'') \<notin> guessedLetters perGuessed \<and>
   \<not> includes_str (targetWord perGuessed) (toUpperCase latin1 (ustr ''x'')) \<and>
   \<not> allGuessed perGuessed \<and>
   troops (guessLetter latin1 (ustr ''x'') perGuessed) = troops perGuessed - 1 \<and>
   currentStreak (guessLetter latin1 (ustr ''x'') perGuessed) = 0"
proof -
  have h: "isGameActive perGuessed" "toUpperCase latin1 (ustr ''x'') \<notin> guessedLetters perGuessed"
    "\<not> includes_str (targetWord perGuessed) (toUpperCase latin1 (ustr ''x''))"
    "\<not> allGuessed perGuessed"
    by code_simp+
  from guessLetter_cost [OF h(1,2)] h show ?thesis by blast
qed

text \<open>
  C2 as stated fails on the guess that completes the word: with P, E and R guessed, the
  guess of U is in the word and the current streak goes from 0 to 1. It also fails on a
  wrong guess in a round whose word has no letter: the streak is 1 after the call.
\<close>

theorem guessLetter_streak_counterexample:
  "isGameActive perGuessed \<and>
   toUpperCase latin1 (ustr ''u'') \<notin> guessedLetters perGuessed \<and>
   includes_str (targetWord perGuessed) (toUpperCase latin1 (ustr ''u'')) \<and>
   currentStreak perGuessed = 0 \<and>
   currentStreak (guessLetter latin1 (ustr ''u'') perGuessed) = 1 \<and>
   isGameActive (newRound latin1 0 digitsOnly) \<and>
   toUpperCase latin1 (ustr ''a'') \<notin> guessedLetters (newRound latin1 0 digitsOnly) \<and>
   \<not> includes_str (targetWord (newRound latin1 0 digitsOnly)) (toUpperCase latin1 (ustr ''a'')) \<and>
   currentStreak (guessLetter latin1 (ustr ''a'') (newRound latin1 0 digitsOnly)) = 1"
  by code_simp

section \<open>The round\<close>

text \<open>
  C1. A round starts with \<open>newRound\<close> on a continent that has a country left, and its
  word is not empty; \<open>ls\<close> is any sequence of guesses in it, and \<open>emitted\<close> the
  dialogs shown since the round started. The round is won (the country-dominated dialog
  has been shown, once) exactly when every non-space character of the word is among the
  guessed letters; it is lost (the troops-depleted dialog has been shown) exactly when the
  troops are at 0, which happens only while the word is incomplete; it is active exactly when
  no dialog has been shown; once it is not active a further guess shows none. And in any
  state, when the word is complete and the troops are at 0 at the same check, the check
  takes the win.
\<close>

theorem round_outcome:
  fixes P :: platform and rnd :: nat and s :: gameState and ls :: "ustring list"
    and s0 s' emitted
  defines "s0 \<equiv> newRound P rnd s"
    and "s' \<equiv> guesses P s0 ls"
    and "emitted \<equiv> drop (length (signals s0)) (signals s')"
  assumes av: "\<exists>c\<in>set (countries s). \<not> isDominated c"
    and ne: "targetWord s0 \<noteq> []"
  shows "((\<exists>nm k. emitted = [CountryDominated nm k]) \<longleftrightarrow> allGuessed s') \<and>
         ((\<exists>nm. emitted = [TroopsDepleted nm]) \<longleftrightarrow> troops s' \<le> 0) \<and>
         (troops s' \<le> 0 \<longrightarrow> \<not> allGuessed s') \<and>
         (isGameActive s' \<longleftrightarrow> emitted = []) \<and>
         (\<not> isGameActive s' \<longrightarrow> signals (guessLetter P l s') = signals s') \<and>
         (\<forall>t c. isGameActive t \<and> allGuessed t \<and> troops t \<le> 0 \<and> currentCountry t = Some c \<longrightarrow>
            signals (checkGameStatus t) =
              signals t @ [CountryDominated (name c) (currentStreak t + 1)])"
proof -
  from av ne obtain c where "isGameActive s0" "currentCountry s0 = Some c"
    "\<not> allGuessed s0" "0 < troops s0"
    unfolding s0_def by (rule newRound_inv)
  from round_inv [OF this, of P ls]
  have "((\<exists>nm k. emitted = [CountryDominated nm k]) \<longleftrightarrow> allGuessed s') \<and>
         ((\<exists>nm. emitted = [TroopsDepleted nm]) \<longleftrightarrow> troops s' \<le> 0) \<and>
         (troops s' \<le> 0 \<longrightarrow> \<not> allGuessed s') \<and>
         (isGameActive s' \<longleftrightarrow> emitted = [])"
    unfolding emitted_def s'_def by auto
  moreover have "\<not> isGameActive s' \<longrightarrow> signals (guessLetter P l s') = signals s'"
    by (simp add: guessLetter_noop)
  moreover have "\<forall>t c. isGameActive t \<and> allGuessed t \<and> troops t \<le> 0 \<and> currentCountry t = Some c \<longrightarrow>
            signals (checkGameStatus t) =
              signals t @ [CountryDominated (name c) (currentStreak t + 1)]"
    using checkGameStatus_win(2) by blast
  ultimately show ?thesis by blast
qed

theorem round_outcome_witness:
  "(\<exists>c\<in>set (countries peruOnly). \<not> isDominated c) \<and>
   targetWord (newRound latin1 0 peruOnly) \<noteq> [] \<and>
   drop (length (signals (newRound latin1 0 peruOnly)))
     (signals (guesses latin1 (newRound latin1 0 peruOnly) peruGuesses)) =
     [CountryDominated (ustr ''Peru'') 1] \<and>
   allGuessed (guesses latin1 (newRound latin1 0 peruOnly) peruGuesses) \<and>
   \<not> isGameActive (guesses latin1 (newRound latin1 0 peruOnly) peruGuesses)"
proof -
  have av: "\<exists>c\<in>set (countries peruOnly). \<not> isDominated c"
    by (simp add: peruOnly_def peruRecord_def)
  have ne: "targetWord (newRound latin1 0 peruOnly) \<noteq> []"
    by code_simp
  have e: "drop (length (signals (newRound latin1 0 peruOnly)))
     (signals (guesses latin1 (newRound latin1 0 peruOnly) peruGuesses)) =
     [CountryDominated (ustr ''Peru'') 1]"
    by code_simp
  from round_outcome [OF av ne, of peruGuesses] av ne e show ?thesis
    by (simp del: drop_eq_Nil)
qed

lemma troopsOk_eq:
  "troops t = troops s \<Longrightarrow> isGameActive t = isGameActive s \<Longrightarrow> troopsOk t = troopsOk s"
  by (simp add: troopsOk_def)

lemma newRound_troopsOk: "troopsOk s \<Longrightarrow> troopsOk (newRound P rnd s)"
  by (simp add: troopsOk_def newRound_def handleContinentWin_def Let_def MAX_TROOPS_def)

lemma guessLetter_troopsOk: "troopsOk s \<Longrightarrow> troopsOk (guessLetter P l s)"
  using guessLetter_troops_inv [of s P l] by (simp add: troopsOk_def)

lemma loadContinent_troopsOk: "troopsOk s \<Longrightarrow> troopsOk (loadContinent P rnd c resp s)"
  by (auto simp: loadContinent_def loadFailed_def showView_def Let_def case_prod_beta
      intro!: newRound_troopsOk split: response.splits option.splits status.splits)
     (simp_all add: troopsOk_def)

lemma foldl_loadStatus_troops:
  "troops (foldl (loadStatus j) t cs) = troops t"
  "isGameActive (foldl (loadStatus j) t cs) = isGameActive t"
  by (induction cs arbitrary: t)
     (auto simp: loadStatus_def split: option.splits jstatus.splits)

lemma initializeAppUI_troopsOk: "troopsOk s \<Longrightarrow> troopsOk (initializeAppUI s)"
  by (auto simp: initializeAppUI_def loadGameStateFromStorage_def showView_def Let_def
      troopsOk_def foldl_loadStatus_troops split: streak_item.splits status_item.splits)

lemma resetCampaign_troopsOk: "troopsOk s \<Longrightarrow> troopsOk (resetCampaign s)"
  by (simp add: resetCampaign_def showView_def troopsOk_def initializeAppUI_def
      loadGameStateFromStorage_def Let_def foldl_loadStatus_troops
      split: streak_item.splits status_item.splits)

lemma modalButton_troopsOk: "troopsOk s \<Longrightarrow> troopsOk (modalButton P rnd s)"
proof -
  assume a: "troopsOk s"
  then have b: "troopsOk (s\<lparr>modalAction := None\<rparr>)" by (simp add: troopsOk_def)
  show ?thesis
    using a b newRound_troopsOk [OF b] resetCampaign_troopsOk [OF b]
    by (auto simp: modalButton_def Let_def showView_def troopsOk_def
        split: option.splits action.splits)
qed

lemma step_troopsOk: "troopsOk s \<Longrightarrow> troopsOk (step P s e)"
proof (cases e)
  case (ContinentCard c resp rnd)
  assume "troopsOk s"
  then have "troopsOk (showView Game s)" by (simp add: troopsOk_def showView_def)
  then show ?thesis using ContinentCard by (simp add: startGame_def loadContinent_troopsOk)
qed (simp_all add: initializeAppUI_troopsOk guessLetter_troopsOk modalButton_troopsOk,
     simp_all add: troopsOk_def showView_def backToMapButton_def)

lemma run_troopsOk: "troopsOk s \<Longrightarrow> troopsOk (run P s es)"
  by (induction es rule: rev_induct) (simp_all add: run_def step_troopsOk)

lemma session_troopsOk: "troopsOk (run P (initialState st) es)"
  by (rule run_troopsOk) (simp add: troopsOk_def initialState_def MAX_TROOPS_def)

text \<open>
  C3. A round starts with 3 troops; whatever the guesses, the troops stay between 0 and 3, a
  further guess never raises them, and when they are at 0 the round is not active, so no
  guess lowers them again. The bounds hold in every state of a session, whatever the events.
\<close>

theorem troops_range:
  assumes "\<exists>c\<in>set (countries s). \<not> isDominated c"
  shows "troops (newRound P rnd s) = 3 \<and>
         0 \<le> troops (guesses P (newRound P rnd s) ls) \<and>
         troops (guesses P (newRound P rnd s) ls) \<le> 3 \<and>
         troops (guesses P (newRound P rnd s) (ls @ [l])) \<le> troops (guesses P (newRound P rnd s) ls) \<and>
         (troops (guesses P (newRound P rnd s) ls) = 0 \<longrightarrow>
            \<not> isGameActive (guesses P (newRound P rnd s) ls)) \<and>
         0 \<le> troops (run P (initialState st) es) \<and>
         troops (run P (initialState st) es) \<le> 3 \<and>
         (troops (run P (initialState st) es) = 0 \<longrightarrow>
            \<not> isGameActive (run P (initialState st) es))"
proof -
  have t: "troops (newRound P rnd s) = 3" using assms by (rule newRound_start(2))
  then have "0 \<le> troops (guesses P (newRound P rnd s) ls) \<and>
     troops (guesses P (newRound P rnd s) ls) \<le> 3 \<and>
     (isGameActive (guesses P (newRound P rnd s) ls) \<longrightarrow> 0 < troops (guesses P (newRound P rnd s) ls))"
    by (intro guesses_troops_inv) simp_all
  moreover have "troops (guesses P (newRound P rnd s) (ls @ [l])) \<le> troops (guesses P (newRound P rnd s) ls)"
    by (simp add: guesses_snoc guessLetter_troops)
  moreover have "troopsOk (run P (initialState st) es)" by (rule session_troopsOk)
  ultimately show ?thesis using t by (auto simp: troopsOk_def)
qed

theorem troops_range_witness:
  "(\<exists>c\<in>set (countries peruOnly). \<not> isDominated c) \<and>
   troops (newRound latin1 0 peruOnly) = 3 \<and>
   troops (guesses latin1 (newRound latin1 0 peruOnly) wrongGuesses) = 0 \<and>
   \<not> isGameActive (guesses latin1 (newRound latin1 0 peruOnly) wrongGuesses) \<and>
   troops (guesses latin1 (newRound latin1 0 peruOnly) (wrongGuesses @ [ustr ''q''])) = 0"
proof -
  have av: "\<exists>c\<in>set (countries peruOnly). \<not> isDominated c"
    by (simp add: peruOnly_def peruRecord_def)
  have z: "troops (guesses latin1 (newRound latin1 0 peruOnly) wrongGuesses) = 0"
    by code_simp
  from troops_range [OF av, of latin1 0 wrongGuesses "ustr ''q''" noStorage "[]"]
    troops_range [OF av, of latin1 0 "wrongGuesses @ [ustr ''q'']" "ustr ''q''" noStorage "[]"] av z
  show ?thesis by auto
qed

section \<open>Leaving a round\<close>

text \<open>
  C10. The button back to the continent map ends the round and sets the current streak to 0,
  whatever the guesses were; the best streak, the continents' statuses with their arrays,
  the countries and the storage are as before, and every later \<open>guessLetter\<close> leaves the
  state as it is.
\<close>

theorem backToMap_resets_streak:
  "\<not> isGameActive (backToMapButton s) \<and>
   currentStreak (backToMapButton s) = 0 \<and>
   bestStreak (backToMapButton s) = bestStreak s \<and>
   continentStatus (backToMapButton s) = continentStatus s \<and>
   arrays (backToMapButton s) = arrays s \<and>
   countries (backToMapButton s) = countries s \<and>
   localStorage (backToMapButton s) = localStorage s \<and>
   currentView (backToMapButton s) = ContinentSelect \<and>
   guessLetter P letter (backToMapButton s) = backToMapButton s"
  by (simp add: backToMapButton_def showView_def guessLetter_def)

theorem backToMap_resets_streak_witness:
  "isGameActive peruWon \<and> currentStreak peruWon = 1 \<and> bestStreak peruWon = 1 \<and>
   \<not> isGameActive (backToMapButton peruWon) \<and>
   currentStreak (backToMapButton peruWon) = 0 \<and>
   bestStreak (backToMapButton peruWon) = 1"
proof -
  have h: "isGameActive peruWon" "currentStreak peruWon = 1" "bestStreak peruWon = 1"
    by code_simp+
  from backToMap_resets_streak [of peruWon] h show ?thesis by simp
qed

section \<open>Loading a continent\<close>

lemma ustr_eq_iff [simp]: "ustr a = ustr b \<longleftrightarrow> a = b"
proof -
  have "inj (\<lambda>c. of_nat (of_char c) :: cu)"
  proof (rule injI)
    fix x y :: char
    assume "(of_nat (of_char x) :: cu) = of_nat (of_char y)"
    then have "take_bit 16 (of_char x :: nat) = take_bit 16 (of_char y :: nat)"
      by (simp add: word_of_nat_eq_iff)
    moreover have "(of_char x :: nat) < 2 ^ 16"
      by (rule less_trans [OF nat_of_char_less_256]) simp
    moreover have "(of_char y :: nat) < 2 ^ 16"
      by (rule less_trans [OF nat_of_char_less_256]) simp
    ultimately have "(of_char x :: nat) = of_char y"
      by (simp add: take_bit_nat_eq_self)
    then show "x = y" by simp
  qed
  then show ?thesis unfolding ustr_def by (rule inj_map_eq_map)
qed

lemma ustr_Nil [simp]: "ustr a = [] \<longleftrightarrow> a = []"
  by (simp add: ustr_def)









section \<open>Global victory\<close>









section \<open>The best streak and its saves\<close>




lemma storedBestOk_iff:
  "storedBestOk s \<longleftrightarrow>
     (bestStreakItem (localStorage s) = NotANumber \<longrightarrow> bestStreak s \<le> 0) \<and>
     (\<forall>n. bestStreakItem (localStorage s) = Digits n \<longrightarrow> bestStreak s \<le> n)"
  by (simp add: storedBestOk_def split: streak_item.splits)

lemma storedBestOk_eq:
  "bestStreak t = bestStreak s \<Longrightarrow> localStorage t = localStorage s \<Longrightarrow>
     storedBestOk t = storedBestOk s"
  by (simp add: storedBestOk_iff)

lemma renderStreak_saved:
  "savedOnRise s (renderStreak s)" "storedBestOk s \<Longrightarrow> storedBestOk (renderStreak s)"
  by (auto simp: savedOnRise_def storedBestOk_iff renderStreak_def saveGameStateToStorage_def
      split: streak_item.splits)























end
